theory Spec2Isabelle
  imports Complex_Main "HOL-Library.AList"
begin

section \<open>JavaScript values\<close>

text \<open>
  The records of the in-memory store are schema-less JavaScript objects. A value is a
  primitive (undefined, null, a boolean, a number, a string) or an object: a \<open>Date\<close>
  (its time value in milliseconds since the epoch), a plain object (its own enumerable
  properties, in the order in which \<open>Object.keys\<close> enumerates them) or an array.
  Numbers are the finite ones (no NaN): the only numbers the store computes are clock
  readings.

  An object carries the identity under which it was allocated, because \<open>===\<close> compares
  objects by reference:
  \<^item> \<open>Clock n\<close> is the \<open>Date\<close> made from the \<open>n\<close>-th clock reading of the process
    (the \<open>new Date()\<close> of the store and the \<open>new Date(Date.now() + ...)\<close> of the
    sample events);
  \<^item> \<open>Caller k\<close> is an object that a caller of the store or of the shim allocated;
  \<^item> \<open>Query\<close> is the object literal that \<open>Event.find\<close> builds for a date range; it
    lives only during that call;
  \<^item> \<open>Builtin name\<close> is the member \<open>name\<close> of \<open>Object.prototype\<close>, which a property
    read yields when the object has no own property of that name. These members are
    functions (\<open>__proto__\<close> is the prototype object itself); they have no own
    enumerable properties. The values that callers hand over hold no functions.
\<close>

datatype ref = Clock nat | Caller nat | Query | Builtin string

datatype jsval =
    JUndefined
  | JNull
  | JBool bool
  | JNum rat
  | JStr string
  | JDate ref int
  | JObj ref "(string \<times> jsval) list"
  | JArr ref "jsval list"

type_synonym jsobj = "(string \<times> jsval) list"

text \<open>The only exception the store's code can raise is the runtime's \<open>TypeError\<close>.\<close>

datatype js_error = TypeError

text \<open>
  \<open>a === b\<close>: primitives are compared by value, objects by identity.
\<close>

fun strict_eq :: "jsval \<Rightarrow> jsval \<Rightarrow> bool" where
  "strict_eq JUndefined b = (b = JUndefined)"
| "strict_eq JNull b = (b = JNull)"
| "strict_eq (JBool x) b = (b = JBool x)"
| "strict_eq (JNum x) b = (b = JNum x)"
| "strict_eq (JStr x) b = (b = JStr x)"
| "strict_eq (JDate r t) b = (case b of JDate r' t' \<Rightarrow> r = r' | _ \<Rightarrow> False)"
| "strict_eq (JObj r obj) b = (case b of JObj r' obj' \<Rightarrow> r = r' | _ \<Rightarrow> False)"
| "strict_eq (JArr r xs) b = (case b of JArr r' ys \<Rightarrow> r = r' | _ \<Rightarrow> False)"

text \<open>Truthiness, as \<open>if (x)\<close>, \<open>!x\<close>, \<open>x && y\<close> and \<open>x || y\<close> test it.\<close>

fun truthy :: "jsval \<Rightarrow> bool" where
  "truthy JUndefined = False"
| "truthy JNull = False"
| "truthy (JBool b) = b"
| "truthy (JNum n) = (n \<noteq> 0)"
| "truthy (JStr s) = (s \<noteq> [])"
| "truthy _ = True"

text \<open>The two values that have no properties at all.\<close>

fun nullish :: "jsval \<Rightarrow> bool" where
  "nullish JUndefined = True"
| "nullish JNull = True"
| "nullish _ = False"

text \<open>\<open>Number.prototype.toString\<close> on a non-negative integer: its decimal digits.\<close>

definition digit :: "nat \<Rightarrow> char" where
  "digit d = ''0123456789'' ! d"

fun toString :: "nat \<Rightarrow> string" where
  "toString n = (if n < 10 then [digit n] else toString (n div 10) @ [digit (n mod 10)])"

declare toString.simps [simp del]

text \<open>
  The property names of \<open>Object.prototype\<close>, which every plain object inherits: the
  records, the filters and the store object \<open>memoryDb\<close> itself.
\<close>

definition Object_prototype_members :: "string list" where
  "Object_prototype_members =
     [''constructor'', ''__defineGetter__'', ''__defineSetter__'', ''hasOwnProperty'',
      ''__lookupGetter__'', ''__lookupSetter__'', ''isPrototypeOf'', ''propertyIsEnumerable'',
      ''toString'', ''valueOf'', ''__proto__'', ''toLocaleString'']"

text \<open>
  \<open>obj[key]\<close> on a plain object: the own property's value; without one, the inherited
  member of that name, and \<open>undefined\<close> when there is none either.
\<close>

definition inherited :: "string \<Rightarrow> jsval" where
  "inherited key =
     (if key \<in> set Object_prototype_members then JObj (Builtin key) [] else JUndefined)"

definition get_field :: "jsobj \<Rightarrow> string \<Rightarrow> jsval" where
  "get_field obj key = (case map_of obj key of None \<Rightarrow> inherited key | Some v \<Rightarrow> v)"

text \<open>
  Defining an own property, as an object literal, a spread and the assignments to
  \<open>query.$or\<close> and \<open>query.date\<close> do: an existing property keeps its place, a new one
  goes last.
\<close>

definition set_field :: "jsobj \<Rightarrow> string \<Rightarrow> jsval \<Rightarrow> jsobj" where
  "set_field obj key v = AList.update key v obj"

text \<open>
  \<open>{...base, ...extra}\<close>: every own property of \<open>extra\<close>, in the order of its keys,
  is written over \<open>base\<close>.
\<close>

fun assign_keys :: "jsobj \<Rightarrow> jsobj \<Rightarrow> string list \<Rightarrow> jsobj" where
  "assign_keys target source [] = target"
| "assign_keys target source (key # keys) =
     assign_keys (set_field target key (get_field source key)) source keys"

definition spread :: "jsobj \<Rightarrow> jsobj \<Rightarrow> jsobj" where
  "spread base extra = assign_keys base extra (map fst extra)"

text \<open>
  The own enumerable properties of any value: those of a plain object, the indexed
  characters of a string, the indexed elements of an array; a number, a boolean, a
  date and a function have none.
\<close>

fun own_props :: "jsval \<Rightarrow> jsobj" where
  "own_props (JObj r obj) = obj"
| "own_props (JStr s) = zip (map toString [0..<length s]) (map (\<lambda>c. JStr [c]) s)"
| "own_props (JArr r xs) = zip (map toString [0..<length xs]) xs"
| "own_props _ = []"

text \<open>\<open>Object.keys(v)\<close> throws on \<open>undefined\<close> and \<open>null\<close>.\<close>

definition Object_keys :: "jsval \<Rightarrow> js_error + string list" where
  "Object_keys v = (if nullish v then Inl TypeError else Inr (map fst (own_props v)))"

text \<open>
  \<open>v[key]\<close> on a value that is neither \<open>undefined\<close> nor \<open>null\<close>, for a key that is an
  own property or that no prototype defines: the source reads \<open>condition[condKey]\<close>
  with \<open>condKey\<close> from \<open>Object.keys(condition)\<close>, and \<open>filter.date.$gte\<close> and
  \<open>filter.date.$lte\<close>.
\<close>

definition js_get :: "jsval \<Rightarrow> string \<Rightarrow> jsval" where
  "js_get v key = (case map_of (own_props v) key of None \<Rightarrow> JUndefined | Some x \<Rightarrow> x)"

text \<open>
  \<open>Array.prototype.every\<close>, \<open>some\<close> and \<open>filter\<close> with a callback that may throw:
  the elements are visited in order, \<open>every\<close> stops at the first false, \<open>some\<close> at the
  first true, and an exception leaves the loop where it is raised.
\<close>

fun every_js :: "('a \<Rightarrow> js_error + bool) \<Rightarrow> 'a list \<Rightarrow> js_error + bool" where
  "every_js f [] = Inr True"
| "every_js f (x # xs) =
     (case f x of Inl e \<Rightarrow> Inl e | Inr b \<Rightarrow> if b then every_js f xs else Inr False)"

fun some_js :: "('a \<Rightarrow> js_error + bool) \<Rightarrow> 'a list \<Rightarrow> js_error + bool" where
  "some_js f [] = Inr False"
| "some_js f (x # xs) =
     (case f x of Inl e \<Rightarrow> Inl e | Inr b \<Rightarrow> if b then Inr True else some_js f xs)"

fun filter_js :: "('a \<Rightarrow> js_error + bool) \<Rightarrow> 'a list \<Rightarrow> js_error + 'a list" where
  "filter_js f [] = Inr []"
| "filter_js f (x # xs) =
     (case f x of
        Inl e \<Rightarrow> Inl e
      | Inr b \<Rightarrow>
          (case filter_js f xs of
             Inl e \<Rightarrow> Inl e
           | Inr ys \<Rightarrow> Inr (if b then x # ys else ys)))"

text \<open>\<open>Array.prototype.findIndex\<close>; \<open>None\<close> is the source's \<open>-1\<close>.\<close>

fun findIndex :: "('a \<Rightarrow> bool) \<Rightarrow> 'a list \<Rightarrow> nat option" where
  "findIndex p [] = None"
| "findIndex p (x # xs) =
     (if p x then Some 0 else map_option Suc (findIndex p xs))"

section \<open>The document store (\<open>src/config/memoryDb.js\<close>)\<close>

text \<open>
  \<open>memoryDb\<close> is a plain object that maps a collection name to its array of records;
  the model holds its own properties. The process state is the store together with the
  number of clock readings taken so far; the clock itself is a parameter \<open>clk\<close>, whose
  \<open>n\<close>-th value is what the \<open>n\<close>-th call of \<open>Date.now()\<close> or \<open>new Date()\<close> of the
  process reads. Every operation resolves its promise at once (\<open>Promise.resolve\<close>), so
  an operation is a function from the state to its result and the new state; an
  operation that throws has the result \<open>Inl TypeError\<close>. The \<open>data\<close> of \<open>create\<close> and
  \<open>update\<close> and the \<open>query\<close> of \<open>find\<close> are objects, as every caller passes them.
\<close>

type_synonym store = "string \<Rightarrow> jsobj list option"

record world =
  memoryDb :: store
  ticks :: nat

definition memoryDb_init :: store where
  "memoryDb_init =
     [''events'' \<mapsto> [], ''users'' \<mapsto> [], ''registrations'' \<mapsto> [], ''reviews'' \<mapsto> [],
      ''sessions'' \<mapsto> [], ''feedbacks'' \<mapsto> [], ''notifications'' \<mapsto> [], ''exhibitors'' \<mapsto> []]"

definition world_init :: world where
  "world_init = \<lparr>memoryDb = memoryDb_init, ticks = 0\<rparr>"

definition Date_now :: "(nat \<Rightarrow> nat) \<Rightarrow> world \<Rightarrow> nat \<times> world" where
  "Date_now clk w = (clk (ticks w), w\<lparr>ticks := Suc (ticks w)\<rparr>)"

text \<open>\<open>new Date()\<close>: a clock reading, and a new object for it.\<close>

definition new_Date :: "(nat \<Rightarrow> nat) \<Rightarrow> world \<Rightarrow> jsval \<times> world" where
  "new_Date clk w =
     (JDate (Clock (ticks w)) (int (clk (ticks w))), w\<lparr>ticks := Suc (ticks w)\<rparr>)"

text \<open>
  \<open>memoryDb[collection] || []\<close>: the collection's own array; without one, the member
  of \<open>Object.prototype\<close> of that name, which is truthy and is not an array; and the
  empty array when there is none either.
\<close>

datatype slot = Records "jsobj list" | Member

definition lookup :: "store \<Rightarrow> string \<Rightarrow> slot" where
  "lookup db collection =
     (case db collection of
        Some items \<Rightarrow> Records items
      | None \<Rightarrow> if collection \<in> set Object_prototype_members then Member else Records [])"

text \<open>The records that a collection holds: those of its own array.\<close>

definition items_of :: "store \<Rightarrow> string \<Rightarrow> jsobj list" where
  "items_of db collection = (case db collection of None \<Rightarrow> [] | Some items \<Rightarrow> items)"

definition has_id :: "jsval \<Rightarrow> jsobj \<Rightarrow> bool" where
  "has_id ident item = strict_eq (get_field item ''_id'') ident"

definition getAll :: "store \<Rightarrow> string \<Rightarrow> slot" where
  "getAll db collection = lookup db collection"

text \<open>
  \<open>findById\<close>; \<open>None\<close> is the not-found sentinel \<open>null\<close>. A member of
  \<open>Object.prototype\<close> has no method \<open>find\<close>, and calling it throws.
\<close>

definition findById :: "store \<Rightarrow> string \<Rightarrow> jsval \<Rightarrow> js_error + jsobj option" where
  "findById db collection ident =
     (case lookup db collection of
        Member \<Rightarrow> Inl TypeError
      | Records items \<Rightarrow> Inr (List.find (has_id ident) items))"

text \<open>
  One condition of a \<open>$or\<close> list:
  \<open>Object.keys(condition).every(condKey => item[condKey] === condition[condKey])\<close>.
\<close>

definition condition_matches :: "jsobj \<Rightarrow> jsval \<Rightarrow> js_error + bool" where
  "condition_matches item condition =
     (case Object_keys condition of
        Inl e \<Rightarrow> Inl e
      | Inr condKeys \<Rightarrow>
          Inr (list_all (\<lambda>condKey. strict_eq (get_field item condKey) (js_get condition condKey))
                 condKeys))"

text \<open>
  The callback of \<open>Object.keys(query).every\<close>. \<open>query['$or'].some\<close> is a function
  only when the value is an array; calling it on anything else is a \<open>TypeError\<close>.
\<close>

definition key_matches :: "jsobj \<Rightarrow> jsobj \<Rightarrow> string \<Rightarrow> js_error + bool" where
  "key_matches item query key =
     (if key = ''$or'' then
        (case get_field query key of
           JArr r conditions \<Rightarrow> some_js (condition_matches item) conditions
         | _ \<Rightarrow> Inl TypeError)
      else Inr (strict_eq (get_field item key) (get_field query key)))"

text \<open>The callback of \<open>items.filter\<close>.\<close>

definition item_matches :: "jsobj \<Rightarrow> jsobj \<Rightarrow> js_error + bool" where
  "item_matches query item = every_js (key_matches item query) (map fst query)"

text \<open>
  \<open>find(collection, query)\<close>. With an empty query the value found under the name is
  returned as it is; otherwise its method \<open>filter\<close> is called, which a member of
  \<open>Object.prototype\<close> does not have.
\<close>

definition find_items :: "store \<Rightarrow> string \<Rightarrow> jsobj \<Rightarrow> js_error + slot" where
  "find_items db collection query =
     (let items = lookup db collection in
      if length (map fst query) = 0 then Inr items
      else (case items of
              Member \<Rightarrow> Inl TypeError
            | Records records \<Rightarrow>
                (case filter_js (item_matches query) records of
                   Inl e \<Rightarrow> Inl e
                 | Inr matching \<Rightarrow> Inr (Records matching))))"

text \<open>
  \<open>create(collection, data)\<close>: three clock readings, for the identifier and the two
  timestamps; the properties of \<open>data\<close> are spread over \<open>_id\<close>. A member of
  \<open>Object.prototype\<close> is truthy, so no array is made for its name, and it has no
  method \<open>push\<close>.
\<close>

definition create ::
  "(nat \<Rightarrow> nat) \<Rightarrow> string \<Rightarrow> jsobj \<Rightarrow> world \<Rightarrow> (js_error + jsobj) \<times> world" where
  "create clk collection data w =
     (let (t0, w1) = Date_now clk w;
          ident = JStr (toString t0);
          (createdAt, w2) = new_Date clk w1;
          (updatedAt, w3) = new_Date clk w2;
          item = set_field (set_field (spread [(''_id'', ident)] data) ''createdAt'' createdAt)
                   ''updatedAt'' updatedAt
      in case lookup (memoryDb w3) collection of
           Member \<Rightarrow> (Inl TypeError, w3)
         | Records items \<Rightarrow>
             (Inr item, w3\<lparr>memoryDb := (memoryDb w3)(collection \<mapsto> items @ [item])\<rparr>))"

text \<open>\<open>update(collection, id, data)\<close>; \<open>None\<close> is \<open>null\<close>.\<close>

definition update ::
  "(nat \<Rightarrow> nat) \<Rightarrow> string \<Rightarrow> jsval \<Rightarrow> jsobj \<Rightarrow> world \<Rightarrow> (js_error + jsobj option) \<times> world"
  where
  "update clk collection ident data w =
     (case lookup (memoryDb w) collection of
        Member \<Rightarrow> (Inl TypeError, w)
      | Records items \<Rightarrow>
          (case findIndex (has_id ident) items of
             Some index \<Rightarrow>
               (let (updatedAt, w1) = new_Date clk w;
                    item = set_field (spread (items ! index) data) ''updatedAt'' updatedAt
                in (Inr (Some item),
                    w1\<lparr>memoryDb := (memoryDb w1)(collection \<mapsto> items[index := item])\<rparr>))
           | None \<Rightarrow> (Inr None, w)))"

text \<open>\<open>delete(collection, id)\<close>: \<open>items.splice(index, 1)[0]\<close>.\<close>

definition delete :: "string \<Rightarrow> jsval \<Rightarrow> world \<Rightarrow> (js_error + jsobj option) \<times> world" where
  "delete collection ident w =
     (case lookup (memoryDb w) collection of
        Member \<Rightarrow> (Inl TypeError, w)
      | Records items \<Rightarrow>
          (case findIndex (has_id ident) items of
             Some index \<Rightarrow>
               (Inr (Some (items ! index)),
                w\<lparr>memoryDb := (memoryDb w)(collection \<mapsto> take index items @ drop (Suc index) items)\<rparr>)
           | None \<Rightarrow> (Inr None, w)))"

section \<open>The compatibility shim (\<open>src/controllers/eventController.js\<close>)\<close>

text \<open>
  The mock \<open>Event\<close> model that the controllers use on the in-memory path.
  \<open>findOneAndUpdate\<close> and \<open>findOneAndDelete\<close> read \<open>filter._id\<close> and nothing else
  of the filter.
\<close>

definition Event_create ::
  "(nat \<Rightarrow> nat) \<Rightarrow> jsobj \<Rightarrow> world \<Rightarrow> (js_error + jsobj) \<times> world" where
  "Event_create clk data w = create clk ''events'' data w"

definition Event_findOneAndUpdate ::
  "(nat \<Rightarrow> nat) \<Rightarrow> jsobj \<Rightarrow> jsobj \<Rightarrow> world \<Rightarrow> (js_error + jsobj option) \<times> world" where
  "Event_findOneAndUpdate clk flt upd w =
     (let ident = get_field flt ''_id'' in
      case findById (memoryDb w) ''events'' ident of
        Inl e \<Rightarrow> (Inl e, w)
      | Inr (Some item) \<Rightarrow> update clk ''events'' ident upd w
      | Inr None \<Rightarrow> (Inr None, w))"

definition Event_findOneAndDelete ::
  "jsobj \<Rightarrow> world \<Rightarrow> (js_error + jsobj option) \<times> world" where
  "Event_findOneAndDelete flt w =
     (let ident = get_field flt ''_id'' in delete ''events'' ident w)"

text \<open>
  \<open>Event.find(filter)\<close> as \<open>listEvents\<close> calls it, without projection and options: the
  sorting and pagination branches are guarded by \<open>options?.sort\<close> and \<open>options?.skip\<close>
  and are not entered. The query handed to the store holds the filter's \<open>$or\<close> and a
  rebuilt \<open>date\<close> range, a new object, and no other key of the filter.
\<close>

definition Event_query :: "jsobj \<Rightarrow> jsobj" where
  "Event_query flt =
     (let query0 = [];
          query1 = (if truthy (get_field flt ''$or'')
                    then set_field query0 ''$or'' (get_field flt ''$or'') else query0);
          fdate = get_field flt ''date'';
          gte = js_get fdate ''$gte'';
          lte = js_get fdate ''$lte''
      in if truthy fdate \<and> (truthy gte \<or> truthy lte)
         then set_field query1 ''date''
                (JObj Query ((if truthy gte then [(''$gte'', gte)] else []) @
                             (if truthy lte then [(''$lte'', lte)] else [])))
         else query1)"

definition Event_find :: "store \<Rightarrow> jsobj \<Rightarrow> js_error + slot" where
  "Event_find db flt = find_items db ''events'' (Event_query flt)"

definition Event_findById :: "store \<Rightarrow> jsval \<Rightarrow> js_error + jsobj option" where
  "Event_findById db ident = findById db ''events'' ident"

text \<open>
  \<open>Event.countDocuments(filter)\<close>: the store's \<open>find('events', filter)\<close> on the filter
  as given, and the \<open>length\<close> of what it returns. The name \<open>events\<close> is not a member
  of \<open>Object.prototype\<close>, so what \<open>find\<close> sees under it is the collection's array
  (the empty one when the store has none), and \<open>find\<close> returns an array;
  \<open>find_events\<close> is \<open>find\<close> for that name.
\<close>

definition find_events :: "store \<Rightarrow> jsobj \<Rightarrow> js_error + jsobj list" where
  "find_events db query =
     (let items = items_of db ''events'' in
      if length (map fst query) = 0 then Inr items
      else filter_js (item_matches query) items)"

definition Event_countDocuments :: "store \<Rightarrow> jsobj \<Rightarrow> js_error + nat" where
  "Event_countDocuments db flt =
     (case find_events db flt of Inl e \<Rightarrow> Inl e | Inr events \<Rightarrow> Inr (length events))"

section \<open>The backend selector\<close>

text \<open>
  The module that exports \<open>usingMemoryDb\<close> and \<open>connectDB\<close>, which the controller
  imports as \<open>../config/db.js\<close>. The environment it reads when it is loaded:
  \<open>env.nodeEnv\<close> and \<open>process.env.MONGO_URI\<close> (\<open>None\<close> when the variable is not
  set; an empty string is falsy as well).
\<close>

record environment =
  nodeEnv :: string
  MONGO_URI :: "string option"

definition useMemoryDb :: "environment \<Rightarrow> bool" where
  "useMemoryDb env =
     (nodeEnv env = ''development'' \<and> (MONGO_URI env = None \<or> MONGO_URI env = Some []))"

text \<open>\<open>export const usingMemoryDb = useMemoryDb\<close>: a constant of the module.\<close>

definition usingMemoryDb :: "environment \<Rightarrow> bool" where
  "usingMemoryDb env = useMemoryDb env"

text \<open>
  The two sample events. Their \<open>date\<close> is a \<open>new Date(Date.now() + ...)\<close>: the object
  made from the clock reading \<open>now\<close>, whose identity is \<open>made\<close>.
\<close>

definition sample_event1 :: "ref \<Rightarrow> nat \<Rightarrow> jsobj" where
  "sample_event1 made now =
     [(''title'', JStr ''Tech Conference 2025''),
      (''description'', JStr ''Annual technology conference with industry leaders''),
      (''date'', JDate made (int now + 7 * 24 * 60 * 60 * 1000)),
      (''location'', JStr ''Convention Center''),
      (''price'', JNum 99.99),
      (''organizer'', JStr ''Organizer Inc.''),
      (''status'', JStr ''approved'')]"

definition sample_event2 :: "ref \<Rightarrow> nat \<Rightarrow> jsobj" where
  "sample_event2 made now =
     [(''title'', JStr ''Music Festival''),
      (''description'', JStr ''Three-day music festival with top artists''),
      (''date'', JDate made (int now + 14 * 24 * 60 * 60 * 1000)),
      (''location'', JStr ''Central Park''),
      (''price'', JNum 149.99),
      (''organizer'', JStr ''Festival Corp''),
      (''status'', JStr ''approved'')]"

text \<open>
  The two \<open>create\<close> calls that every branch of \<open>connectDB\<close> makes; the argument's
  \<open>Date.now()\<close> is read before \<open>create\<close> reads the clock itself. Both calls name the
  collection \<open>events\<close>, for which \<open>create\<close> does not throw.
\<close>

definition seed_samples :: "(nat \<Rightarrow> nat) \<Rightarrow> world \<Rightarrow> world" where
  "seed_samples clk w =
     (let (now1, w1) = Date_now clk w;
          (event1, w2) = create clk ''events'' (sample_event1 (Clock (ticks w)) now1) w1;
          (now2, w3) = Date_now clk w2;
          (event2, w4) = create clk ''events'' (sample_event2 (Clock (ticks w2)) now2) w3
      in w4)"

text \<open>
  The properties of the exported \<open>memoryDbUtils\<close> object. The "clear existing data"
  step is guarded by \<open>typeof memoryDbUtils.memoryDb !== 'undefined'\<close>.
\<close>

definition memoryDbUtils_properties :: "string list" where
  "memoryDbUtils_properties =
     [''getAll'', ''findById'', ''find'', ''create'', ''update'', ''delete'']"

definition clear_existing :: "world \<Rightarrow> world" where
  "clear_existing w =
     (if ''memoryDb'' \<in> set memoryDbUtils_properties
      then w\<lparr>memoryDb := (memoryDb w)(''events'' \<mapsto> [])\<rparr> else w)"

datatype connect_path = MemoryChosen | MongoConnected | FellBack

text \<open>
  \<open>connectDB()\<close>. \<open>connects\<close> says whether \<open>mongoose.connect\<close> resolves; when it
  rejects, control is in the \<open>catch\<close> block. On the in-memory path the test
  \<open>if (memoryDbUtils)\<close> succeeds, the module having imported the utilities when it was
  loaded. The closing \<open>find('events', {})\<close> of two branches only feeds a log line.
  The result names the path taken and gives the process state afterwards; no branch
  assigns the flag.
\<close>

definition connectDB :: "environment \<Rightarrow> bool \<Rightarrow> (nat \<Rightarrow> nat) \<Rightarrow> world \<Rightarrow> connect_path \<times> world" where
  "connectDB env connects clk w =
     (if useMemoryDb env then (MemoryChosen, seed_samples clk w)
      else if connects then
        (if nodeEnv env = ''development''
         then (MongoConnected, seed_samples clk (clear_existing w))
         else (MongoConnected, w))
      else (FellBack, seed_samples clk (clear_existing w)))"

section \<open>The matcher as a predicate\<close>

text \<open>
  What the store's matcher decides when it does not throw: every key of the filter must
  hold; the key \<open>$or\<close> holds when some condition of its list holds, all of whose keys
  are compared with \<open>===\<close>; any other key is compared with \<open>===\<close>, whatever the shape
  of its value.
\<close>

definition condition_holds :: "jsobj \<Rightarrow> jsval \<Rightarrow> bool" where
  "condition_holds item condition =
     list_all (\<lambda>condKey. strict_eq (get_field item condKey) (js_get condition condKey))
       (map fst (own_props condition))"

definition key_holds :: "jsobj \<Rightarrow> jsobj \<Rightarrow> string \<Rightarrow> bool" where
  "key_holds item query key =
     (if key = ''$or'' then
        (case get_field query key of
           JArr r conditions \<Rightarrow> list_ex (condition_holds item) conditions
         | _ \<Rightarrow> False)
      else strict_eq (get_field item key) (get_field query key))"

definition strictly_matches :: "jsobj \<Rightarrow> jsobj \<Rightarrow> bool" where
  "strictly_matches item query = list_all (key_holds item query) (map fst query)"

text \<open>
  A filter whose \<open>$or\<close>, when it has one, is a list without \<open>null\<close> and \<open>undefined\<close>
  elements: the shape in which every caller writes it.
\<close>

definition or_is_list :: "jsobj \<Rightarrow> bool" where
  "or_is_list query =
     (if ''$or'' \<in> set (map fst query)
      then (case get_field query ''$or'' of
              JArr r conditions \<Rightarrow> list_all (\<lambda>c. \<not> nullish c) conditions
            | _ \<Rightarrow> False)
      else True)"

section \<open>Scenarios\<close>

text \<open>
  Two clocks, in milliseconds since the epoch: one whose readings all differ, and one
  whose readings all fall into the same millisecond, as those of calls made back to
  back do.
\<close>

definition ticking_clock :: "nat \<Rightarrow> nat" where
  "ticking_clock n = 1700000000000 + n"

definition tied_clock :: "nat \<Rightarrow> nat" where
  "tied_clock n = 1700000000000"

text \<open>A deployment with a connection string, so that \<open>connectDB\<close> tries the real backend.\<close>

definition production_env :: environment where
  "production_env = \<lparr>nodeEnv = ''production'', MONGO_URI = Some ''mongodb://db.example/college''\<rparr>"

text \<open>The store after the two sample events have been created, under either clock.\<close>

definition seeded_world :: world where
  "seeded_world = seed_samples ticking_clock world_init"

definition tied_world :: world where
  "tied_world = seed_samples tied_clock world_init"

text \<open>
  An event that \<open>createEvent\<close> stored for the user \<open>alice\<close>, and the filter that
  \<open>updateEvent\<close> and \<open>deleteEvent\<close> build when the user \<open>mallory\<close> names that event.
\<close>

definition alice_world :: world where
  "alice_world =
     snd (Event_create ticking_clock
            [(''title'', JStr ''Open Day''), (''organizer'', JStr ''alice'')] world_init)"

definition mallory_filter :: jsobj where
  "mallory_filter = [(''_id'', JStr ''1700000000000''), (''organizer'', JStr ''mallory'')]"

text \<open>A store holding one event that was created under the tied clock.\<close>

definition tied_single_world :: world where
  "tied_single_world =
     snd (create tied_clock ''events'' [(''title'', JStr ''Open Day'')] world_init)"



text \<open>A filter that combines a well-formed \<open>$or\<close> with an operator the store does not know.\<close>

definition price_filter :: jsobj where
  "price_filter =
     [(''$or'', JArr (Caller 0) [JObj (Caller 1) [(''status'', JStr ''approved'')]]),
      (''price'', JObj (Caller 2) [(''$gt'', JNum 100)])]"

text \<open>
  A registration, and the filter with which \<open>getEvent\<close> counts the registrations of an
  event that are not cancelled.
\<close>

definition registration_world :: world where
  "registration_world =
     snd (create ticking_clock ''registrations''
            [(''event'', JStr ''e1''), (''status'', JStr ''confirmed'')] world_init)"

definition not_cancelled_filter :: jsobj where
  "not_cancelled_filter =
     [(''event'', JStr ''e1''), (''status'', JObj (Caller 0) [(''$ne'', JStr ''cancelled'')])]"

text \<open>The filters that \<open>listEvents\<close> builds for a date range and for a text search.\<close>

definition date_range_filter :: jsobj where
  "date_range_filter =
     [(''date'', JObj (Caller 0)
        [(''$gte'', JDate (Caller 1) 1700000000000), (''$lte'', JDate (Caller 2) 1800000000000)])]"

definition text_search_filter :: jsobj where
  "text_search_filter =
     [(''$or'', JArr (Caller 0)
        [JObj (Caller 1)
           [(''title'', JObj (Caller 2) [(''$regex'', JStr ''music''), (''$options'', JStr ''i'')])],
         JObj (Caller 3)
           [(''description'',
             JObj (Caller 4) [(''$regex'', JStr ''music''), (''$options'', JStr ''i'')])]])]"

section \<open>Properties of the building blocks\<close>

lemmas eval_defs =
  create_def update_def delete_def Date_now_def new_Date_def Let_def set_field_def spread_def
  lookup_def items_of_def memoryDb_init_def world_init_def get_field_def inherited_def
  Object_prototype_members_def has_id_def findById_def
  toString.simps digit_def seed_samples_def sample_event1_def sample_event2_def
  Event_create_def ticking_clock_def tied_clock_def
  seeded_world_def tied_world_def alice_world_def registration_world_def tied_single_world_def

subsection \<open>Objects\<close>

lemma get_field_Cons:
  "get_field ((key, v) # obj) key' = (if key' = key then v else get_field obj key')"
  by (simp add: get_field_def)

lemma get_field_set_field:
  "get_field (set_field obj key v) key' = (if key' = key then v else get_field obj key')"
  by (simp add: get_field_def set_field_def update_conv')

lemma get_field_assign_keys:
  "get_field (assign_keys target source keys) key =
     (if key \<in> set keys then get_field source key else get_field target key)"
  by (induction keys arbitrary: target) (auto simp: get_field_set_field)

lemma get_field_spread:
  "get_field (spread base extra) key =
     (if key \<in> fst ` set extra then get_field extra key else get_field base key)"
  by (simp add: spread_def get_field_assign_keys)

subsection \<open>Array operations\<close>

lemma findIndex_Some:
  "findIndex p xs = Some i \<Longrightarrow> i < length xs \<and> p (xs ! i) \<and> (\<forall>j<i. \<not> p (xs ! j))"
proof (induction xs arbitrary: i)
  case Nil
  then show ?case by simp
next
  case (Cons x xs)
  show ?case
  proof (cases "p x")
    case True
    with Cons.prems show ?thesis by simp
  next
    case False
    with Cons.prems obtain k where k: "findIndex p xs = Some k" "i = Suc k"
      by auto
    from Cons.IH [OF k(1)] False k(2) show ?thesis
      by (auto simp: nth_Cons split: nat.splits)
  qed
qed

lemma findIndex_None: "findIndex p xs = None \<longleftrightarrow> (\<forall>x \<in> set xs. \<not> p x)"
  by (induction xs) auto

lemma find_findIndex: "List.find p xs = map_option (\<lambda>i. xs ! i) (findIndex p xs)"
  by (induction xs) (auto simp: option.map_comp comp_def)

lemma findIndex_first:
  "i < length xs \<Longrightarrow> p (xs ! i) \<Longrightarrow> (\<forall>j<i. \<not> p (xs ! j)) \<Longrightarrow> findIndex p xs = Some i"
proof (induction xs arbitrary: i)
  case Nil
  then show ?case by simp
next
  case (Cons x xs)
  show ?case
  proof (cases i)
    case 0
    with Cons.prems show ?thesis by simp
  next
    case (Suc k)
    with Cons.prems have "\<not> p x" by auto
    moreover have "findIndex p xs = Some k"
      using Cons.prems Suc by (intro Cons.IH) auto
    ultimately show ?thesis using Suc by simp
  qed
qed

lemma findIndex_list_update:
  assumes "findIndex p xs = Some i" and "p y"
  shows "findIndex p (xs[i := y]) = Some i"
proof -
  from findIndex_Some [OF assms(1)] have "i < length xs" "\<forall>j<i. \<not> p (xs ! j)" by auto
  then show ?thesis using assms(2) by (intro findIndex_first) auto
qed

lemma findIndex_remove:
  assumes "findIndex p xs = Some i" and "length (filter p xs) \<le> 1"
  shows "findIndex p (take i xs @ drop (Suc i) xs) = None"
proof -
  from findIndex_Some [OF assms(1)] have i: "i < length xs" "p (xs ! i)" by auto
  have xs: "xs = take i xs @ xs ! i # drop (Suc i) xs"
    using i(1) by (simp add: id_take_nth_drop)
  have "length (filter p xs) = length (filter p (take i xs)) + 1 + length (filter p (drop (Suc i) xs))"
    by (subst xs) (simp add: i(2))
  with assms(2) have "filter p (take i xs) = []" "filter p (drop (Suc i) xs) = []" by auto
  then show ?thesis
    by (auto simp: findIndex_None filter_empty_conv)
qed

lemma every_js_total:
  "(\<And>x. x \<in> set xs \<Longrightarrow> f x = Inr (g x)) \<Longrightarrow> every_js f xs = Inr (list_all g xs)"
  by (induction xs) auto

lemma some_js_total:
  "(\<And>x. x \<in> set xs \<Longrightarrow> f x = Inr (g x)) \<Longrightarrow> some_js f xs = Inr (list_ex g xs)"
  by (induction xs) auto

lemma filter_js_total:
  "(\<And>x. x \<in> set xs \<Longrightarrow> f x = Inr (g x)) \<Longrightarrow> filter_js f xs = Inr (filter g xs)"
  by (induction xs) auto

subsection \<open>The matcher does not throw on a well-formed filter\<close>

lemma condition_matches_holds:
  "\<not> nullish c \<Longrightarrow> condition_matches item c = Inr (condition_holds item c)"
  by (simp add: condition_matches_def Object_keys_def condition_holds_def)

lemma key_matches_holds:
  assumes "or_is_list query" and "key \<in> set (map fst query)"
  shows "key_matches item query key = Inr (key_holds item query key)"
proof (cases "key = ''$or''")
  case True
  with assms obtain r conds where c: "get_field query ''$or'' = JArr r conds"
    "list_all (\<lambda>c. \<not> nullish c) conds"
    by (auto simp: or_is_list_def split: jsval.splits if_splits)
  have "condition_matches item c = Inr (condition_holds item c)" if "c \<in> set conds" for c
    using c(2) that by (intro condition_matches_holds) (simp add: list_all_iff)
  from some_js_total [of conds "condition_matches item" "condition_holds item", OF this] True c(1)
  show ?thesis by (simp add: key_matches_def key_holds_def)
next
  case False
  then show ?thesis by (simp add: key_matches_def key_holds_def)
qed

lemma item_matches_holds:
  "or_is_list query \<Longrightarrow> item_matches query item = Inr (strictly_matches item query)"
  unfolding item_matches_def strictly_matches_def
  by (rule every_js_total) (rule key_matches_holds)

lemma filter_js_matches:
  "or_is_list query \<Longrightarrow>
   filter_js (item_matches query) items = Inr (filter (\<lambda>item. strictly_matches item query) items)"
  by (rule filter_js_total) (rule item_matches_holds)

subsection \<open>The store's operations\<close>

text \<open>
  A name that is not a member of \<open>Object.prototype\<close>, \<open>events\<close> among them, always
  leads to an array; so does a collection that holds records.
\<close>

lemma items_of_upd: "items_of (db(collection \<mapsto> items)) collection = items"
  by (simp add: items_of_def)

lemma lookup_upd: "lookup (db(collection \<mapsto> items)) collection = Records items"
  by (simp add: lookup_def)

lemma lookup_own:
  "collection \<notin> set Object_prototype_members \<Longrightarrow>
   lookup db collection = Records (items_of db collection)"
  by (simp add: lookup_def items_of_def split: option.splits)

lemma lookup_events: "lookup db ''events'' = Records (items_of db ''events'')"
  by (rule lookup_own) (simp add: Object_prototype_members_def)

lemma lookup_nonempty:
  "items_of db collection \<noteq> [] \<Longrightarrow> lookup db collection = Records (items_of db collection)"
  by (simp add: lookup_def items_of_def split: option.splits)

lemma lookup_found:
  "findIndex p (items_of db collection) = Some index \<Longrightarrow>
   lookup db collection = Records (items_of db collection)"
  by (rule lookup_nonempty) auto

lemma lookup_Records:
  "lookup db collection = Records items \<Longrightarrow> items_of db collection = items"
  by (auto simp: lookup_def items_of_def split: option.splits if_splits)


lemma has_id_after_update:
  assumes "has_id ident old" and "''_id'' \<notin> fst ` set data"
  shows "has_id ident (set_field (spread old data) ''updatedAt'' d)"
  using assms by (simp add: has_id_def get_field_set_field get_field_spread)

lemma update_found:
  assumes "findIndex (has_id ident) (items_of (memoryDb w) collection) = Some index"
  shows "update clk collection ident data w =
           (Inr (Some (set_field (spread (items_of (memoryDb w) collection ! index) data)
                    ''updatedAt'' (JDate (Clock (ticks w)) (int (clk (ticks w)))))),
            w\<lparr>ticks := Suc (ticks w),
              memoryDb := (memoryDb w)(collection \<mapsto>
                (items_of (memoryDb w) collection)
                  [index := set_field (spread (items_of (memoryDb w) collection ! index) data)
                              ''updatedAt'' (JDate (Clock (ticks w)) (int (clk (ticks w))))])\<rparr>)"
  using assms by (simp add: update_def lookup_found [OF assms] new_Date_def Let_def)

lemma create_events:
  "create clk ''events'' data w =
     (let item = set_field (set_field (spread [(''_id'', JStr (toString (clk (ticks w))))] data)
                   ''createdAt'' (JDate (Clock (ticks w + 1)) (int (clk (ticks w + 1)))))
                   ''updatedAt'' (JDate (Clock (ticks w + 2)) (int (clk (ticks w + 2))))
      in (Inr item,
          w\<lparr>ticks := ticks w + 3,
            memoryDb := (memoryDb w)(''events'' \<mapsto> items_of (memoryDb w) ''events'' @ [item])\<rparr>))"
  by (simp add: create_def Date_now_def new_Date_def Let_def lookup_events)

lemma create_identifier:
  "''_id'' \<notin> fst ` set data \<Longrightarrow> create clk collection data w = (Inr item, w') \<Longrightarrow>
   get_field item ''_id'' = JStr (toString (clk (ticks w)))"
  by (auto simp: create_def Date_now_def new_Date_def Let_def get_field_set_field
      get_field_spread get_field_Cons split: slot.splits)

text \<open>
  Deleting twice, for a collection name that is not a member of \<open>Object.prototype\<close>
  and an identifier that at most one record carries: the first call returns what
  \<open>findById\<close> finds and leaves the other records, the second returns \<open>null\<close> and
  changes nothing.
\<close>

lemma delete_twice_unique:
  assumes "collection \<notin> set Object_prototype_members"
    and "length (filter (has_id ident) (items_of (memoryDb w) collection)) \<le> 1"
  shows "fst (delete collection ident w) = findById (memoryDb w) collection ident \<and>
         items_of (memoryDb (snd (delete collection ident w))) collection =
           filter (\<lambda>item. \<not> has_id ident item) (items_of (memoryDb w) collection) \<and>
         delete collection ident (snd (delete collection ident w)) =
           (Inr None, snd (delete collection ident w))"
proof (cases "findIndex (has_id ident) (items_of (memoryDb w) collection)")
  case None
  then have "filter (\<lambda>item. \<not> has_id ident item) (items_of (memoryDb w) collection)
             = items_of (memoryDb w) collection"
    by (simp add: findIndex_None filter_id_conv)
  with None show ?thesis
    by (simp add: delete_def lookup_own [OF assms(1)] findById_def find_findIndex)
next
  case (Some index)
  let ?items = "items_of (memoryDb w) collection"
  let ?rest = "take index ?items @ drop (Suc index) ?items"
  from findIndex_Some [OF Some] have i: "index < length ?items" "has_id ident (?items ! index)"
    by auto
  have gone: "findIndex (has_id ident) ?rest = None"
    by (rule findIndex_remove [OF Some assms(2)])
  then have "filter (\<lambda>item. \<not> has_id ident item) ?rest = ?rest"
    by (simp add: findIndex_None filter_id_conv)
  moreover have "filter (\<lambda>item. \<not> has_id ident item) ?items =
      filter (\<lambda>item. \<not> has_id ident item) ?rest"
    using i by (subst id_take_nth_drop [OF i(1)]) simp
  ultimately have rest: "filter (\<lambda>item. \<not> has_id ident item) ?items = ?rest" by simp
  show ?thesis
    using Some gone rest
    by (simp add: delete_def lookup_own [OF assms(1)] findById_def find_findIndex items_of_upd
        lookup_upd)
qed

subsection \<open>The backend selector\<close>

lemma clear_existing_keeps: "clear_existing w = w"
  by (simp add: clear_existing_def memoryDbUtils_properties_def)

lemma seed_samples_appends_two:
  "length (items_of (memoryDb (seed_samples clk w)) ''events'') =
     length (items_of (memoryDb w) ''events'') + 2"
  by (simp add: seed_samples_def Date_now_def split_beta Let_def create_events items_of_upd)

lemma fallback_never_sets_flag:
  "fst (connectDB env connects clk w) = FellBack \<Longrightarrow> \<not> usingMemoryDb env"
  by (auto simp: connectDB_def usingMemoryDb_def split: if_splits)

subsection \<open>The shim\<close>

lemma shim_reads_only_identifier:
  "Event_findOneAndUpdate clk flt upd w =
     Event_findOneAndUpdate clk [(''_id'', get_field flt ''_id'')] upd w"
  "Event_findOneAndDelete flt w = Event_findOneAndDelete [(''_id'', get_field flt ''_id'')] w"
  by (simp_all add: Event_findOneAndUpdate_def Event_findOneAndDelete_def get_field_Cons)

lemma Event_find_ignores_other_keys:
  "\<not> truthy (get_field flt ''$or'') \<Longrightarrow> \<not> truthy (get_field flt ''date'') \<Longrightarrow>
   Event_find db flt = Inr (Records (items_of db ''events''))"
  by (simp add: Event_find_def Event_query_def find_items_def Let_def lookup_events)

lemmas store_defs = update_def delete_def new_Date_def Date_now_def Let_def set_field_def
  spread_def get_field_def has_id_def findById_def items_of_upd lookup_upd

lemmas query_defs = find_items_def find_events_def item_matches_def key_matches_def
  condition_matches_def Object_keys_def js_get_def get_field_def inherited_def
  Object_prototype_members_def set_field_def Let_def Event_query_def Event_find_def
  Event_countDocuments_def lookup_events

lemmas store_eval = store_defs inherited_def Object_prototype_members_def lookup_events

section \<open>The scenarios, evaluated\<close>

lemma seeded_events:
  "items_of (memoryDb seeded_world) ''events'' =
     [[(''_id'', JStr ''1700000000001''), (''title'', JStr ''Tech Conference 2025''),
       (''description'', JStr ''Annual technology conference with industry leaders''),
       (''date'', JDate (Clock 0) 1700604800000), (''location'', JStr ''Convention Center''),
       (''price'', JNum (9999 / 100)), (''organizer'', JStr ''Organizer Inc.''),
       (''status'', JStr ''approved''), (''createdAt'', JDate (Clock 2) 1700000000002),
       (''updatedAt'', JDate (Clock 3) 1700000000003)],
      [(''_id'', JStr ''1700000000005''), (''title'', JStr ''Music Festival''),
       (''description'', JStr ''Three-day music festival with top artists''),
       (''date'', JDate (Clock 4) 1701209600004), (''location'', JStr ''Central Park''),
       (''price'', JNum (14999 / 100)), (''organizer'', JStr ''Festival Corp''),
       (''status'', JStr ''approved''), (''createdAt'', JDate (Clock 6) 1700000000006),
       (''updatedAt'', JDate (Clock 7) 1700000000007)]]"
  by (simp add: eval_defs)

lemma tied_events:
  "items_of (memoryDb tied_world) ''events'' =
     [[(''_id'', JStr ''1700000000000''), (''title'', JStr ''Tech Conference 2025''),
       (''description'', JStr ''Annual technology conference with industry leaders''),
       (''date'', JDate (Clock 0) 1700604800000), (''location'', JStr ''Convention Center''),
       (''price'', JNum (9999 / 100)), (''organizer'', JStr ''Organizer Inc.''),
       (''status'', JStr ''approved''), (''createdAt'', JDate (Clock 2) 1700000000000),
       (''updatedAt'', JDate (Clock 3) 1700000000000)],
      [(''_id'', JStr ''1700000000000''), (''title'', JStr ''Music Festival''),
       (''description'', JStr ''Three-day music festival with top artists''),
       (''date'', JDate (Clock 4) 1701209600000), (''location'', JStr ''Central Park''),
       (''price'', JNum (14999 / 100)), (''organizer'', JStr ''Festival Corp''),
       (''status'', JStr ''approved''), (''createdAt'', JDate (Clock 6) 1700000000000),
       (''updatedAt'', JDate (Clock 7) 1700000000000)]]"
  by (simp add: eval_defs)

lemma tied_ticks: "ticks tied_world = 8"
  by (simp add: tied_world_def seed_samples_def create_events Date_now_def Let_def split_beta
      world_init_def)

lemma alice_events:
  "items_of (memoryDb alice_world) ''events'' =
     [[(''_id'', JStr ''1700000000000''), (''title'', JStr ''Open Day''),
       (''organizer'', JStr ''alice''), (''createdAt'', JDate (Clock 1) 1700000000001),
       (''updatedAt'', JDate (Clock 2) 1700000000002)]]"
  by (simp add: eval_defs)

lemma alice_ticks: "ticks alice_world = 3"
  by (simp add: alice_world_def Event_create_def create_events Let_def world_init_def)

lemma tied_single_events:
  "items_of (memoryDb tied_single_world) ''events'' =
     [[(''_id'', JStr ''1700000000000''), (''title'', JStr ''Open Day''),
       (''createdAt'', JDate (Clock 1) 1700000000000),
       (''updatedAt'', JDate (Clock 2) 1700000000000)]]"
  by (simp add: eval_defs)

lemma tied_single_ticks: "ticks tied_single_world = 3"
  by (simp add: tied_single_world_def create_events Let_def world_init_def)

lemma registration_items:
  "items_of (memoryDb registration_world) ''registrations'' =
     [[(''_id'', JStr ''1700000000000''), (''event'', JStr ''e1''),
       (''status'', JStr ''confirmed''), (''createdAt'', JDate (Clock 1) 1700000000001),
       (''updatedAt'', JDate (Clock 2) 1700000000002)]]"
  by (simp add: eval_defs)

lemma connectDB_fallback_path:
  "connectDB production_env False ticking_clock world_init = (FellBack, seeded_world)"
  by (simp add: connectDB_def useMemoryDb_def production_env_def clear_existing_def
      memoryDbUtils_properties_def seeded_world_def)

section \<open>The claims\<close>

subsection \<open>C1: the flag after a failed connection\<close>

text \<open>
  C1 says that after \<open>connectDB()\<close> resolves following a connection failure, the
  process-wide flag \<open>usingMemoryDb\<close> is true and the events collection holds exactly
  the two sample records. The flag is a module constant computed before any connection
  is attempted, and a connection is attempted only when it is false
  (\<open>fallback_never_sets_flag\<close>). Evaluated for a production deployment whose
  \<open>mongoose.connect\<close> rejects: the \<open>catch\<close> block runs and seeds the two samples into
  the initially empty store, and the flag is still false. The "clear existing data"
  step does nothing (\<open>clear_existing_keeps\<close>), so a second failing call leaves four
  records.
\<close>

theorem fallback_leaves_flag_false:
  "fst (connectDB production_env False ticking_clock world_init) = FellBack \<and>
   \<not> usingMemoryDb production_env \<and>
   map (\<lambda>event. get_field event ''title'')
     (items_of (memoryDb (snd (connectDB production_env False ticking_clock world_init))) ''events'')
     = [JStr ''Tech Conference 2025'', JStr ''Music Festival''] \<and>
   length (items_of (memoryDb (snd (connectDB production_env False ticking_clock seeded_world)))
     ''events'') = 4"
proof -
  have "connectDB production_env False ticking_clock seeded_world =
      (FellBack, seed_samples ticking_clock seeded_world)"
    by (simp add: connectDB_def useMemoryDb_def production_env_def clear_existing_keeps)
  then have "length (items_of (memoryDb (snd (connectDB production_env False ticking_clock
      seeded_world))) ''events'') = 4"
    by (simp add: seed_samples_appends_two seeded_events)
  then show ?thesis
    unfolding connectDB_fallback_path
    by (simp add: seeded_events usingMemoryDb_def useMemoryDb_def production_env_def get_field_def)
qed

subsection \<open>C2: the ownership check of the shim\<close>

text \<open>
  C2 says that an update or delete through the shim with a filter
  \<open>{_id, organizer}\<close> mutates the record only if the stored record also has that
  organizer, and otherwise returns \<open>null\<close> without mutating. Evaluated on an event
  that \<open>alice\<close> organizes and the filter built for the user \<open>mallory\<close>:
  \<open>findOneAndUpdate\<close> rewrites the title, and \<open>findOneAndDelete\<close> returns the record
  and leaves the collection empty. No field of the filter but \<open>_id\<close> has any effect
  (\<open>shim_reads_only_identifier\<close>).
\<close>

theorem shim_ignores_owner:
  "map (\<lambda>event. get_field event ''organizer'') (items_of (memoryDb alice_world) ''events'')
     = [JStr ''alice''] \<and>
   get_field mallory_filter ''organizer'' = JStr ''mallory'' \<and>
   map (\<lambda>event. get_field event ''title'')
     (items_of (memoryDb (snd (Event_findOneAndUpdate ticking_clock mallory_filter
        [(''title'', JStr ''Hacked'')] alice_world))) ''events'') = [JStr ''Hacked''] \<and>
   map_sum id (map_option (\<lambda>event. get_field event ''organizer''))
     (fst (Event_findOneAndDelete mallory_filter alice_world)) = Inr (Some (JStr ''alice'')) \<and>
   items_of (memoryDb (snd (Event_findOneAndDelete mallory_filter alice_world))) ''events'' = []"
  by (simp add: Event_findOneAndUpdate_def Event_findOneAndDelete_def mallory_filter_def
      store_eval alice_events alice_ticks ticking_clock_def)

subsection \<open>C3: filter shapes the matcher does not know\<close>

text \<open>
  C3 says that a filter with a key whose shape is not a recognized operator makes the
  evaluation raise an error. As amended: for every collection whose name leads to an
  array (an own collection of the store, or a name that is not a member of
  \<open>Object.prototype\<close>) and every filter whose \<open>$or\<close>, if it has one, is a list without
  \<open>null\<close> and \<open>undefined\<close> elements, \<open>find\<close> raises nothing and returns exactly the
  records that match when every key other than \<open>$or\<close>, and every key of a condition
  of \<open>$or\<close>, is compared with \<open>===\<close>, whatever the shape of its value. In
  particular, when the filter has a key other than \<open>$or\<close> whose value no record holds
  under that key (as an operator object that the caller has just built; \<open>===\<close> on
  objects is identity), the result is the empty sequence.
\<close>

theorem find_compares_strictly:
  assumes "or_is_list query" and "lookup db collection = Records items"
  shows "find_items db collection query =
           Inr (Records (filter (\<lambda>item. strictly_matches item query) items)) \<and>
         (\<forall>key. key \<in> set (map fst query) \<and> key \<noteq> ''$or'' \<and>
            (\<forall>item \<in> set items. \<not> strict_eq (get_field item key) (get_field query key)) \<longrightarrow>
            find_items db collection query = Inr (Records []))"
proof -
  have found: "find_items db collection query =
      Inr (Records (filter (\<lambda>item. strictly_matches item query) items))"
  proof (cases "query = []")
    case True
    then show ?thesis
      by (simp add: find_items_def assms(2) strictly_matches_def)
  next
    case False
    then show ?thesis
      by (simp add: find_items_def assms(2) filter_js_matches [OF assms(1)])
  qed
  have "filter (\<lambda>item. strictly_matches item query) items = []"
    if "key \<in> set (map fst query)" "key \<noteq> ''$or''"
      "\<forall>item \<in> set items. \<not> strict_eq (get_field item key) (get_field query key)" for key
  proof -
    have "\<not> strictly_matches item query" if "item \<in> set items" for item
    proof -
      from \<open>key \<noteq> ''$or''\<close> \<open>\<forall>item \<in> set items. _\<close> that
      have "\<not> key_holds item query key"
        by (simp add: key_holds_def)
      with \<open>key \<in> set (map fst query)\<close> show ?thesis
        unfolding strictly_matches_def list_all_iff by blast
    qed
    then show ?thesis by (simp add: filter_empty_conv)
  qed
  then have "\<forall>key. key \<in> set (map fst query) \<and> key \<noteq> ''$or'' \<and>
      (\<forall>item \<in> set items. \<not> strict_eq (get_field item key) (get_field query key)) \<longrightarrow>
      find_items db collection query = Inr (Records [])"
    unfolding found by blast
  with found show ?thesis by (intro conjI)
qed

text \<open>
  The amended C3 at a concrete input: a well-formed \<open>$or\<close> together with the operator
  \<open>$gt\<close>, on the two seeded events.
\<close>

theorem find_compares_strictly_witness:
  "or_is_list price_filter \<and>
   lookup (memoryDb seeded_world) ''events'' = Records (items_of (memoryDb seeded_world) ''events'') \<and>
   length (items_of (memoryDb seeded_world) ''events'') = 2 \<and>
   ''price'' \<in> set (map fst price_filter) \<and>
   list_all (\<lambda>item. \<not> strict_eq (get_field item ''price'') (get_field price_filter ''price''))
     (items_of (memoryDb seeded_world) ''events'') \<and>
   find_items (memoryDb seeded_world) ''events'' price_filter = Inr (Records [])"
proof -
  have 1: "or_is_list price_filter"
    by (simp add: price_filter_def or_is_list_def get_field_def)
  have 2: "lookup (memoryDb seeded_world) ''events'' =
      Records (items_of (memoryDb seeded_world) ''events'')"
    by (rule lookup_events)
  have 3: "''price'' \<in> set (map fst price_filter)"
    by (simp add: price_filter_def)
  have 4: "list_all (\<lambda>item. \<not> strict_eq (get_field item ''price'') (get_field price_filter ''price''))
     (items_of (memoryDb seeded_world) ''events'')"
    by (simp add: seeded_events price_filter_def get_field_def)
  have 5: "''price'' \<noteq> ''$or''"
    by simp
  from 4 have 6: "\<forall>item \<in> set (items_of (memoryDb seeded_world) ''events'').
      \<not> strict_eq (get_field item ''price'') (get_field price_filter ''price'')"
    by (simp only: list_all_iff)
  from find_compares_strictly [OF 1 2, THEN conjunct2, THEN spec, of "''price''"] 3 5 6
  have "find_items (memoryDb seeded_world) ''events'' price_filter = Inr (Records [])"
    by (simp only: simp_thms)
  with 1 2 3 4 show ?thesis
    by (simp add: seeded_events)
qed

text \<open>
  C3 as stated fails: the filter \<open>{event: 'e1', status: {$ne: 'cancelled'}}\<close> of
  \<open>getEvent\<close> has the unrecognized operator \<open>$ne\<close>; on a store with one confirmed
  registration of that event, \<open>find\<close> returns the empty sequence and no error.
\<close>

theorem unsupported_operator_no_error:
  "map (\<lambda>r. get_field r ''status'') (items_of (memoryDb registration_world) ''registrations'')
     = [JStr ''confirmed''] \<and>
   find_items (memoryDb registration_world) ''registrations'' not_cancelled_filter
     = Inr (Records [])"
proof -
  have "lookup (memoryDb registration_world) ''registrations'' =
      Records (items_of (memoryDb registration_world) ''registrations'')"
    by (rule lookup_own) (simp add: Object_prototype_members_def)
  then show ?thesis
    by (simp add: find_items_def item_matches_def key_matches_def get_field_def Let_def
        registration_items not_cancelled_filter_def)
qed

subsection \<open>C4: date ranges\<close>

text \<open>
  C4 says that a filter \<open>{date: {gte: A, lte: B}}\<close> matches a record exactly when
  \<open>A \<le> date \<le> B\<close>. Evaluated on the two seeded events, whose dates both lie between
  the bounds of the filter that \<open>listEvents\<close> builds: the store's \<open>find\<close> and the
  shim's \<open>Event.find\<close> both return the empty sequence, because the range object is
  compared with \<open>===\<close> against the stored date.
\<close>

theorem date_range_matches_nothing:
  "map (\<lambda>event. get_field event ''date'') (items_of (memoryDb seeded_world) ''events'')
     = [JDate (Clock 0) 1700604800000, JDate (Clock 4) 1701209600004] \<and>
   date_range_filter =
     [(''date'', JObj (Caller 0)
        [(''$gte'', JDate (Caller 1) 1700000000000), (''$lte'', JDate (Caller 2) 1800000000000)])] \<and>
   find_items (memoryDb seeded_world) ''events'' date_range_filter = Inr (Records []) \<and>
   Event_find (memoryDb seeded_world) date_range_filter = Inr (Records [])"
  by (simp add: query_defs seeded_events date_range_filter_def)

subsection \<open>C5: case-insensitive substring search\<close>

text \<open>
  C5 says that a case-insensitive substring filter on a field matches every record
  whose field contains the text, so that a search for "music" matches the record titled
  "Music Festival". Evaluated on the two seeded events: neither the filter on the title
  alone nor the \<open>$or\<close> filter that \<open>listEvents\<close> builds for the search matches any
  record.
\<close>

theorem text_search_matches_nothing:
  "map (\<lambda>event. get_field event ''title'') (items_of (memoryDb seeded_world) ''events'')
     = [JStr ''Tech Conference 2025'', JStr ''Music Festival''] \<and>
   find_items (memoryDb seeded_world) ''events''
     [(''title'', JObj (Caller 2) [(''$regex'', JStr ''music''), (''$options'', JStr ''i'')])]
     = Inr (Records []) \<and>
   Event_find (memoryDb seeded_world) text_search_filter = Inr (Records [])"
  by (simp add: query_defs seeded_events text_search_filter_def)

subsection \<open>C6: identifiers\<close>

text \<open>
  C6 says that the identifiers allocated by \<open>create\<close> are pairwise distinct within a
  collection, also when clock readings tie, and are never reused after a deletion. The
  identifier is the decimal text of the clock reading (\<open>create_identifier\<close>).
  Evaluated under a clock whose readings tie: the two sample events get the same
  identifier, and an identifier whose record has been deleted is allocated again.
\<close>

theorem tied_clock_repeats_identifier:
  "map (\<lambda>event. get_field event ''_id'') (items_of (memoryDb tied_world) ''events'')
     = [JStr ''1700000000000'', JStr ''1700000000000''] \<and>
   items_of (memoryDb (snd (delete ''events'' (JStr ''1700000000000'') tied_single_world)))
     ''events'' = [] \<and>
   map_sum id (\<lambda>event. get_field event ''_id'')
     (fst (create tied_clock ''events'' [(''title'', JStr ''Sports Day'')]
        (snd (delete ''events'' (JStr ''1700000000000'') tied_single_world))))
     = Inr (JStr ''1700000000000'')"
  by (simp add: tied_events tied_single_events store_eval create_events tied_clock_def
      toString.simps digit_def)

subsection \<open>C7: counting\<close>




subsection \<open>C8: update followed by findById\<close>

text \<open>
  C8 says that \<open>update(collection, id, {f: v})\<close> followed by
  \<open>findById(collection, id)\<close> yields a record whose field \<open>f\<close> equals \<open>v\<close>, whose
  other fields are unchanged, and whose update timestamp is strictly greater than its
  creation timestamp. As amended: for every collection and identifier \<open>id\<close> under which
  \<open>findById\<close> finds a record, which is the first record of the collection that
  carries \<open>id\<close>, and every field \<open>f\<close> other than \<open>_id\<close> and \<open>updatedAt\<close>, the update
  returns a record that \<open>findById\<close> then yields; its field \<open>f\<close> equals \<open>v\<close>, every
  other field except \<open>updatedAt\<close> is that of the record found before, and
  \<open>updatedAt\<close> is the date of the clock reading that \<open>update\<close> takes. The record
  takes the place of the one found, and every other record of the collection, also one
  that carries the same identifier, stays as it is. When \<open>f\<close> is not \<open>createdAt\<close>, the
  clock never runs backwards and the creation timestamp is an earlier reading of it,
  the update timestamp is greater than or equal to the creation timestamp.
\<close>

theorem update_then_findById:
  assumes "findById (memoryDb w) collection ident = Inr (Some old)"
    and "f \<noteq> ''_id''" and "f \<noteq> ''updatedAt''"
  shows "\<exists>item. fst (update clk collection ident [(f, v)] w) = Inr (Some item) \<and>
           findById (memoryDb (snd (update clk collection ident [(f, v)] w))) collection ident
             = Inr (Some item) \<and>
           get_field item f = v \<and>
           (\<forall>g. g \<noteq> f \<and> g \<noteq> ''updatedAt'' \<longrightarrow> get_field item g = get_field old g) \<and>
           get_field item ''updatedAt'' = JDate (Clock (ticks w)) (int (clk (ticks w))) \<and>
           (\<exists>index. findIndex (has_id ident) (items_of (memoryDb w) collection) = Some index \<and>
              items_of (memoryDb w) collection ! index = old \<and>
              items_of (memoryDb (snd (update clk collection ident [(f, v)] w))) collection =
                (items_of (memoryDb w) collection)[index := item]) \<and>
           (f \<noteq> ''createdAt'' \<and> mono clk \<and>
            (\<exists>n<ticks w. \<exists>r. get_field old ''createdAt'' = JDate r (int (clk n))) \<longrightarrow>
            (\<exists>r created updated.
               get_field item ''createdAt'' = JDate r created \<and>
               get_field item ''updatedAt'' = JDate (Clock (ticks w)) updated \<and>
               created \<le> updated))"
proof -
  let ?items = "items_of (memoryDb w) collection"
  from assms(1) obtain items where look: "lookup (memoryDb w) collection = Records items"
    and find: "List.find (has_id ident) items = Some old"
    by (auto simp: findById_def split: slot.splits)
  from look have items: "items = ?items"
    by (simp add: lookup_Records)
  from find obtain index where index: "findIndex (has_id ident) ?items = Some index"
    and old: "old = ?items ! index"
    unfolding items by (auto simp: find_findIndex)
  let ?item = "set_field (spread old [(f, v)]) ''updatedAt''
    (JDate (Clock (ticks w)) (int (clk (ticks w))))"
  from findIndex_Some [OF index] old have "has_id ident old" by simp
  with assms(2) have "has_id ident ?item"
    by (intro has_id_after_update) auto
  then have fi: "findIndex (has_id ident) (?items[index := ?item]) = Some index"
    by (rule findIndex_list_update [OF index])
  have len: "index < length ?items"
    using findIndex_Some [OF index] by blast
  have found: "List.find (has_id ident) (?items[index := ?item]) = Some ?item"
    unfolding find_findIndex fi using len by simp
  have upd: "update clk collection ident [(f, v)] w =
      (Inr (Some ?item), w\<lparr>ticks := Suc (ticks w),
         memoryDb := (memoryDb w)(collection \<mapsto> ?items[index := ?item])\<rparr>)"
    by (simp add: update_found [OF index] old)
  have 1: "fst (update clk collection ident [(f, v)] w) = Inr (Some ?item)"
    by (simp add: upd)
  have 2: "findById (memoryDb (snd (update clk collection ident [(f, v)] w))) collection ident
      = Inr (Some ?item)"
    using found by (simp add: upd findById_def lookup_upd)
  have 3: "get_field ?item f = v"
    using assms(3) by (simp add: get_field_set_field get_field_spread get_field_Cons)
  have 4: "\<forall>g. g \<noteq> f \<and> g \<noteq> ''updatedAt'' \<longrightarrow> get_field ?item g = get_field old g"
    by (simp add: get_field_set_field get_field_spread)
  have 5: "get_field ?item ''updatedAt'' = JDate (Clock (ticks w)) (int (clk (ticks w)))"
    by (simp add: get_field_set_field)
  have 6: "\<exists>index. findIndex (has_id ident) ?items = Some index \<and> ?items ! index = old \<and>
      items_of (memoryDb (snd (update clk collection ident [(f, v)] w))) collection =
        ?items[index := ?item]"
    using index old by (simp add: upd items_of_upd)
  have 7: "\<exists>r created updated.
      get_field ?item ''createdAt'' = JDate r created \<and>
      get_field ?item ''updatedAt'' = JDate (Clock (ticks w)) updated \<and> created \<le> updated"
    if "f \<noteq> ''createdAt''" "mono clk" "n < ticks w"
      "get_field old ''createdAt'' = JDate r (int (clk n))" for n r
  proof -
    have "clk n \<le> clk (ticks w)"
      using that(2,3) by (simp add: monoD)
    moreover have "get_field ?item ''createdAt'' = JDate r (int (clk n))"
      using that(1,4) by (simp add: get_field_set_field get_field_spread)
    ultimately show ?thesis using 5 by simp
  qed
  show ?thesis
    using 1 2 3 4 5 6 7 by (intro exI [of _ ?item]) blast
qed

text \<open>
  The amended C8 at a concrete input: the two sample events created under the tied
  clock carry the same identifier; an update by that identifier rewrites the first and
  leaves the second.
\<close>

theorem update_then_findById_witness:
  "findById (memoryDb tied_world) ''events'' (JStr ''1700000000000'')
     = Inr (Some (items_of (memoryDb tied_world) ''events'' ! 0)) \<and>
   mono tied_clock \<and> 2 < ticks tied_world \<and>
   get_field (items_of (memoryDb tied_world) ''events'' ! 0) ''createdAt''
     = JDate (Clock 2) (int (tied_clock 2)) \<and>
   map_sum id (map_option
     (\<lambda>item. (get_field item ''title'', get_field item ''_id'', get_field item ''createdAt'',
               get_field item ''updatedAt'')))
     (findById (memoryDb (snd (update tied_clock ''events'' (JStr ''1700000000000'')
        [(''title'', JStr ''Closed'')] tied_world))) ''events'' (JStr ''1700000000000''))
     = Inr (Some (JStr ''Closed'', JStr ''1700000000000'', JDate (Clock 2) 1700000000000,
                  JDate (Clock 8) 1700000000000)) \<and>
   map (\<lambda>item. get_field item ''title'')
     (items_of (memoryDb (snd (update tied_clock ''events'' (JStr ''1700000000000'')
        [(''title'', JStr ''Closed'')] tied_world))) ''events'')
     = [JStr ''Closed'', JStr ''Music Festival'']"
proof -
  let ?items = "items_of (memoryDb tied_world) ''events''"
  let ?old = "?items ! 0"
  let ?after = "snd (update tied_clock ''events'' (JStr ''1700000000000'')
    [(''title'', JStr ''Closed'')] tied_world)"
  have h: "findById (memoryDb tied_world) ''events'' (JStr ''1700000000000'') = Inr (Some ?old)"
    by (simp add: findById_def lookup_events tied_events has_id_def get_field_def)
  have m: "mono tied_clock"
    by (simp add: mono_def tied_clock_def)
  have t: "2 < ticks tied_world"
    by (simp add: tied_ticks)
  have k: "get_field ?old ''createdAt'' = JDate (Clock 2) (int (tied_clock 2))"
    by (simp add: tied_events get_field_def tied_clock_def)
  have c: "\<exists>n<ticks tied_world. \<exists>r. get_field ?old ''createdAt'' = JDate r (int (tied_clock n))"
    using t k by blast
  have first: "findIndex (has_id (JStr ''1700000000000'')) ?items = Some 0"
    by (simp add: tied_events has_id_def get_field_def)
  have "\<exists>item.
    fst (update tied_clock ''events'' (JStr ''1700000000000'') [(''title'', JStr ''Closed'')]
       tied_world) = Inr (Some item) \<and>
    findById (memoryDb ?after) ''events'' (JStr ''1700000000000'') = Inr (Some item) \<and>
    get_field item ''title'' = JStr ''Closed'' \<and>
    (\<forall>g. g \<noteq> ''title'' \<and> g \<noteq> ''updatedAt'' \<longrightarrow> get_field item g = get_field ?old g) \<and>
    get_field item ''updatedAt'' =
      JDate (Clock (ticks tied_world)) (int (tied_clock (ticks tied_world))) \<and>
    (\<exists>index. findIndex (has_id (JStr ''1700000000000'')) ?items = Some index \<and>
       ?items ! index = ?old \<and> items_of (memoryDb ?after) ''events'' = ?items[index := item]) \<and>
    (''title'' \<noteq> ''createdAt'' \<and> mono tied_clock \<and>
     (\<exists>n<ticks tied_world. \<exists>r. get_field ?old ''createdAt'' = JDate r (int (tied_clock n))) \<longrightarrow>
     (\<exists>r created updated. get_field item ''createdAt'' = JDate r created \<and>
        get_field item ''updatedAt'' = JDate (Clock (ticks tied_world)) updated \<and>
        created \<le> updated))"
    by (rule update_then_findById [OF h]) simp_all
  then obtain item where item:
    "fst (update tied_clock ''events'' (JStr ''1700000000000'') [(''title'', JStr ''Closed'')]
       tied_world) = Inr (Some item) \<and>
    findById (memoryDb ?after) ''events'' (JStr ''1700000000000'') = Inr (Some item) \<and>
    get_field item ''title'' = JStr ''Closed'' \<and>
    (\<forall>g. g \<noteq> ''title'' \<and> g \<noteq> ''updatedAt'' \<longrightarrow> get_field item g = get_field ?old g) \<and>
    get_field item ''updatedAt'' =
      JDate (Clock (ticks tied_world)) (int (tied_clock (ticks tied_world))) \<and>
    (\<exists>index. findIndex (has_id (JStr ''1700000000000'')) ?items = Some index \<and>
       ?items ! index = ?old \<and> items_of (memoryDb ?after) ''events'' = ?items[index := item]) \<and>
    (''title'' \<noteq> ''createdAt'' \<and> mono tied_clock \<and>
     (\<exists>n<ticks tied_world. \<exists>r. get_field ?old ''createdAt'' = JDate r (int (tied_clock n))) \<longrightarrow>
     (\<exists>r created updated. get_field item ''createdAt'' = JDate r created \<and>
        get_field item ''updatedAt'' = JDate (Clock (ticks tied_world)) updated \<and>
        created \<le> updated))" ..
  note found = item [THEN conjunct2, THEN conjunct1]
  note title = item [THEN conjunct2, THEN conjunct2, THEN conjunct1]
  note frame = item [THEN conjunct2, THEN conjunct2, THEN conjunct2, THEN conjunct1]
  note stamp = item [THEN conjunct2, THEN conjunct2, THEN conjunct2, THEN conjunct2, THEN conjunct1]
  note place = item [THEN conjunct2, THEN conjunct2, THEN conjunct2, THEN conjunct2,
    THEN conjunct2, THEN conjunct1]
  have ident: "get_field item ''_id'' = JStr ''1700000000000''"
    using frame [THEN spec, of "''_id''"] by (simp add: tied_events get_field_def)
  have updated: "get_field item ''updatedAt'' = JDate (Clock 8) 1700000000000"
    using stamp by (simp add: tied_ticks tied_clock_def)
  have created: "get_field item ''createdAt'' = JDate (Clock 2) 1700000000000"
    using frame [THEN spec, of "''createdAt''"] by (simp add: tied_events get_field_def)
  from place first have "items_of (memoryDb ?after) ''events'' = ?items[0 := item]"
    by auto
  then have titles: "map (\<lambda>item. get_field item ''title'') (items_of (memoryDb ?after) ''events'')
      = [JStr ''Closed'', JStr ''Music Festival'']"
    using title by (simp add: tied_events get_field_def)
  show ?thesis
    unfolding found titles using h m t k title ident created updated by simp
qed

text \<open>
  C8 as stated fails. When the clock readings of \<open>create\<close> and \<open>update\<close> tie, the
  update timestamp equals the creation timestamp. For \<open>f = updatedAt\<close> the field does
  not equal \<open>v\<close> afterwards, and for \<open>f = _id\<close> the record is no longer found under
  \<open>id\<close>.
\<close>

theorem update_timestamp_not_strictly_greater:
  "map_sum id (map_option (\<lambda>r. (get_field r ''createdAt'', get_field r ''updatedAt'')))
     (findById (memoryDb (snd (update tied_clock ''events'' (JStr ''1700000000000'')
        [(''title'', JStr ''Closed'')] tied_single_world))) ''events'' (JStr ''1700000000000''))
     = Inr (Some (JDate (Clock 1) 1700000000000, JDate (Clock 3) 1700000000000)) \<and>
   map_sum id (map_option (\<lambda>r. get_field r ''updatedAt''))
     (findById (memoryDb (snd (update tied_clock ''events'' (JStr ''1700000000000'')
        [(''updatedAt'', JDate (Caller 0) 0)] tied_single_world))) ''events''
        (JStr ''1700000000000''))
     = Inr (Some (JDate (Clock 3) 1700000000000)) \<and>
   findById (memoryDb (snd (update tied_clock ''events'' (JStr ''1700000000000'')
        [(''_id'', JStr ''42'')] tied_single_world))) ''events'' (JStr ''1700000000000'')
     = Inr None"
  by (simp add: store_eval tied_single_events tied_single_ticks tied_clock_def)

subsection \<open>C9: deleting twice\<close>

text \<open>
  C9 says that for every collection and identifier the first \<open>delete\<close> removes and
  returns the record if present, and the second returns \<open>null\<close>, never an error.
  Evaluated on the two sample events created under a tied clock, which carry the same
  identifier: the first \<open>delete\<close> returns the first event and the second \<open>delete\<close>
  returns the second event, not \<open>null\<close>. Evaluated on the collection name
  \<open>constructor\<close>, which the store object inherits from \<open>Object.prototype\<close>:
  \<open>delete\<close> throws. Where neither happens the claim holds (\<open>delete_twice_unique\<close>).
\<close>

theorem second_delete_finds_duplicate:
  "map_sum id (map_option (\<lambda>r. get_field r ''title''))
     (fst (delete ''events'' (JStr ''1700000000000'') tied_world))
     = Inr (Some (JStr ''Tech Conference 2025'')) \<and>
   map_sum id (map_option (\<lambda>r. get_field r ''title''))
     (fst (delete ''events'' (JStr ''1700000000000'')
        (snd (delete ''events'' (JStr ''1700000000000'') tied_world))))
     = Inr (Some (JStr ''Music Festival'')) \<and>
   fst (delete ''constructor'' (JStr ''1700000000000'') world_init) = Inl TypeError"
proof -
  have "fst (delete ''constructor'' (JStr ''1700000000000'') world_init) = Inl TypeError"
    by (simp add: delete_def lookup_def world_init_def memoryDb_init_def
        Object_prototype_members_def)
  then show ?thesis
    by (simp add: store_eval tied_events)
qed

subsection \<open>C10: system fields are not protected on update\<close>

text \<open>
  C10: for every \<open>update(collection, id, data)\<close> on an existing record, the stored
  record's \<open>_id\<close> and \<open>createdAt\<close> are those of \<open>data\<close> when \<open>data\<close> has these keys
  (and the old ones otherwise), while \<open>updatedAt\<close> is always the clock reading taken by
  the store, whatever \<open>data\<close> holds.
\<close>

theorem update_overwrites_system_fields:
  assumes "findIndex (has_id ident) (items_of (memoryDb w) collection) = Some index"
  shows "\<exists>item. fst (update clk collection ident data w) = Inr (Some item) \<and>
           items_of (memoryDb (snd (update clk collection ident data w))) collection =
             (items_of (memoryDb w) collection)[index := item] \<and>
           get_field item ''_id'' =
             (if ''_id'' \<in> fst ` set data then get_field data ''_id''
              else get_field (items_of (memoryDb w) collection ! index) ''_id'') \<and>
           get_field item ''createdAt'' =
             (if ''createdAt'' \<in> fst ` set data then get_field data ''createdAt''
              else get_field (items_of (memoryDb w) collection ! index) ''createdAt'') \<and>
           get_field item ''updatedAt'' = JDate (Clock (ticks w)) (int (clk (ticks w)))"
  by (simp add: update_found [OF assms] items_of_upd get_field_set_field get_field_spread)

text \<open>
  C10 at a concrete input: an update that forges the identifier and the creation
  timestamp of the event of \<open>alice_world\<close>.
\<close>

theorem update_overwrites_system_fields_witness:
  "findIndex (has_id (JStr ''1700000000000'')) (items_of (memoryDb alice_world) ''events'')
     = Some 0 \<and>
   (\<exists>item. fst (update ticking_clock ''events'' (JStr ''1700000000000'')
               [(''_id'', JStr ''forged''), (''createdAt'', JDate (Caller 0) 0)] alice_world)
               = Inr (Some item) \<and>
      get_field item ''_id'' = JStr ''forged'' \<and>
      get_field item ''createdAt'' = JDate (Caller 0) 0 \<and>
      get_field item ''updatedAt'' = JDate (Clock 3) 1700000000003)"
proof -
  have h: "findIndex (has_id (JStr ''1700000000000'')) (items_of (memoryDb alice_world) ''events'')
      = Some 0"
    by (simp add: alice_events has_id_def get_field_def)
  from update_overwrites_system_fields [OF h, of ticking_clock
      "[(''_id'', JStr ''forged''), (''createdAt'', JDate (Caller 0) 0)]"]
  obtain item where
    "fst (update ticking_clock ''events'' (JStr ''1700000000000'')
       [(''_id'', JStr ''forged''), (''createdAt'', JDate (Caller 0) 0)] alice_world)
       = Inr (Some item)"
    "get_field item ''_id'' = JStr ''forged''"
    "get_field item ''createdAt'' = JDate (Caller 0) 0"
    "get_field item ''updatedAt'' = JDate (Clock 3) 1700000000003"
    by (auto simp: get_field_Cons alice_ticks ticking_clock_def)
  with h show ?thesis by blast
qed

end
